theory Spec2Isabelle
  imports Complex_Main
begin

section \<open>The point robot in SE(2): states, controls and the store\<close>

text \<open>
  The script \<^verbatim>\<open>2DMotionPointRobot.py\<close> hands three things to an external planning
  library: a validity checker, a state propagator and a start/goal pair picked from a
  grid enumeration. The planner, the state space and the control space live in that
  library and are not part of the script.

  A state of the space SE(2) is an object with the three fields that the script reads
  and writes through \<^verbatim>\<open>getX/getY/getYaw\<close> and \<^verbatim>\<open>setX/setY/setYaw\<close>. The scalar type
  is left open: the propagator only combines scalars with \<^verbatim>\<open>+\<close>, \<^verbatim>\<open>*\<close>, \<^verbatim>\<open>cos\<close>
  and \<^verbatim>\<open>sin\<close>, so these four operations are a parameter, and every statement about the
  data flow of the propagator holds for whatever arithmetic the interpreter uses. The
  instance \<open>real_arith\<close> reads them as the operations on the real numbers.
\<close>

record 'a SE2State =
  X :: 'a
  Y :: 'a
  Yaw :: 'a

text \<open>A control of the two-dimensional control space: \<^verbatim>\<open>control[0]\<close> and \<^verbatim>\<open>control[1]\<close>.\<close>

record 'a Control =
  c0 :: 'a
  c1 :: 'a

record 'a arith =
  add :: "'a \<Rightarrow> 'a \<Rightarrow> 'a"
  mul :: "'a \<Rightarrow> 'a \<Rightarrow> 'a"
  cosf :: "'a \<Rightarrow> 'a"
  sinf :: "'a \<Rightarrow> 'a"

definition real_arith :: "real arith" where
  "real_arith = \<lparr>add = (+), mul = (*), cosf = cos, sinf = sin\<rparr>"

text \<open>
  States and controls are objects that the library passes by reference, so the model
  keeps them in a store and the propagator receives addresses. Two parameters of one
  call may be the same address.
\<close>

type_synonym addr = nat

record 'a store =
  states :: "addr \<Rightarrow> 'a SE2State"
  controls :: "addr \<Rightarrow> 'a Control"

definition getX :: "'a store \<Rightarrow> addr \<Rightarrow> 'a" where
  "getX h p = X (states h p)"

definition getY :: "'a store \<Rightarrow> addr \<Rightarrow> 'a" where
  "getY h p = Y (states h p)"

definition getYaw :: "'a store \<Rightarrow> addr \<Rightarrow> 'a" where
  "getYaw h p = Yaw (states h p)"

definition setX :: "'a store \<Rightarrow> addr \<Rightarrow> 'a \<Rightarrow> 'a store" where
  "setX h p v = h\<lparr>states := (states h)(p := (states h p)\<lparr>X := v\<rparr>)\<rparr>"

definition setY :: "'a store \<Rightarrow> addr \<Rightarrow> 'a \<Rightarrow> 'a store" where
  "setY h p v = h\<lparr>states := (states h)(p := (states h p)\<lparr>Y := v\<rparr>)\<rparr>"

definition setYaw :: "'a store \<Rightarrow> addr \<Rightarrow> 'a \<Rightarrow> 'a store" where
  "setYaw h p v = h\<lparr>states := (states h)(p := (states h p)\<lparr>Yaw := v\<rparr>)\<rparr>"

definition control_at :: "'a store \<Rightarrow> addr \<Rightarrow> nat \<Rightarrow> 'a" where
  "control_at h p i = (if i = 0 then c0 (controls h p) else c1 (controls h p))"

subsection \<open>The validity checker\<close>

text \<open>
  \<^verbatim>\<open>isStateValid(spaceInformation, state)\<close> returns
  \<^verbatim>\<open>spaceInformation.satisfiesBounds(state)\<close>. The space information is an object of
  the library; the only thing the script uses of it is that method, which is therefore a
  field of the record below. \<^verbatim>\<open>partial(isStateValid, si)\<close> is the checker that \<^verbatim>\<open>plan\<close>
  installs.
\<close>

record 'st SpaceInformation =
  satisfiesBounds :: "'st \<Rightarrow> bool"

definition isStateValid :: "'st SpaceInformation \<Rightarrow> 'st \<Rightarrow> bool" where
  "isStateValid spaceInformation state = satisfiesBounds spaceInformation state"

definition partial :: "('a \<Rightarrow> 'b \<Rightarrow> 'c) \<Rightarrow> 'a \<Rightarrow> ('b \<Rightarrow> 'c)" where
  "partial f a = (\<lambda>b. f a b)"

subsection \<open>The state propagator\<close>

text \<open>
  \<^verbatim>\<open>propagate(start, control, duration, state)\<close> is three statements, each of which reads
  the start state and the control from the store as it is at that moment and writes one
  field of the output state.
\<close>

definition propagate ::
  "'a arith \<Rightarrow> 'a store \<Rightarrow> addr \<Rightarrow> addr \<Rightarrow> 'a \<Rightarrow> addr \<Rightarrow> 'a store" where
  "propagate ar h start control duration state =
     (let h1 = setX h state
                 (add ar (getX h start)
                    (mul ar (mul ar (control_at h control 0) duration) (cosf ar (getYaw h start))));
          h2 = setY h1 state
                 (add ar (getY h1 start)
                    (mul ar (mul ar (control_at h1 control 0) duration) (sinf ar (getYaw h1 start))));
          h3 = setYaw h2 state
                 (add ar (getYaw h2 start) (mul ar (control_at h2 control 1) duration))
      in h3)"

section \<open>The grid enumeration of start and goal pairs\<close>

text \<open>
  Every Python exception that the enumeration can raise is a value. Floats outside the
  propagator are read as real numbers, so that the grid axis is computed exactly.
\<close>

datatype py_error = IndexError | ValueError | RecursionError

text \<open>
  \<^verbatim>\<open>ob.RealVectorBounds(dim)\<close> of the library: two vectors of \<^verbatim>\<open>dim\<close> zeros, which
  \<^verbatim>\<open>setLow(v)\<close> and \<^verbatim>\<open>setHigh(v)\<close> fill with \<^verbatim>\<open>v\<close>.
\<close>

record RealVectorBounds =
  low :: "real list"
  high :: "real list"

definition RealVectorBounds_init :: "nat \<Rightarrow> RealVectorBounds" where
  "RealVectorBounds_init dimn = \<lparr>low = replicate dimn 0, high = replicate dimn 0\<rparr>"

definition setLow :: "real \<Rightarrow> RealVectorBounds \<Rightarrow> RealVectorBounds" where
  "setLow v b = b\<lparr>low := replicate (length (low b)) v\<rparr>"

definition setHigh :: "real \<Rightarrow> RealVectorBounds \<Rightarrow> RealVectorBounds" where
  "setHigh v b = b\<lparr>high := replicate (length (high b)) v\<rparr>"

text \<open>Reading \<^verbatim>\<open>xs[i]\<close> at a constant, non-negative index.\<close>

definition item :: "'a list \<Rightarrow> nat \<Rightarrow> py_error + 'a" where
  "item xs i = (if i < length xs then Inr (xs ! i) else Inl IndexError)"

definition bind_err :: "py_error + 'a \<Rightarrow> ('a \<Rightarrow> py_error + 'b) \<Rightarrow> py_error + 'b" where
  "bind_err r f = (case r of Inl e \<Rightarrow> Inl e | Inr v \<Rightarrow> f v)"

text \<open>
  \<^verbatim>\<open>np.linspace(start, stop, num)\<close> of numpy, with its default \<^verbatim>\<open>endpoint=True\<close>:
  a negative \<^verbatim>\<open>num\<close> raises \<^verbatim>\<open>ValueError\<close>; otherwise the samples are
  \<^verbatim>\<open>arange(0, num) * step + start\<close> with \<^verbatim>\<open>step = (stop - start) / (num - 1)\<close>
  (and the factor \<^verbatim>\<open>stop - start\<close> when \<^verbatim>\<open>num - 1\<close> is not positive), and the last
  sample is overwritten with \<^verbatim>\<open>stop\<close> when \<^verbatim>\<open>num > 1\<close>.
\<close>

definition linspace :: "real \<Rightarrow> real \<Rightarrow> int \<Rightarrow> py_error + real list" where
  "linspace start stop num =
     (if num < 0 then Inl ValueError
      else let dv = num - 1;
               delta = stop - start;
               step = (if dv > 0 then delta / real_of_int dv else delta);
               y = map (\<lambda>i. real i * step + start) [0..<nat num]
           in Inr (if num > 1 then y[nat num - 1 := stop] else y))"

text \<open>
  \<^verbatim>\<open>_rec_all_states(state_index, grid_marks, bounds)\<close>. The axis \<^verbatim>\<open>s\<close> is computed
  before the test on \<^verbatim>\<open>state_index\<close>, in every call. A \<^verbatim>\<open>state_index\<close> above
  \<^verbatim>\<open>dim - 1\<close> is never equal to it again, and the interpreter ends that recursion with
  \<^verbatim>\<open>RecursionError\<close>.
\<close>

function rec_all_states :: "int \<Rightarrow> int \<Rightarrow> RealVectorBounds \<Rightarrow> py_error + real list list" where
  "rec_all_states state_index grid_marks bounds =
     (let dimn = 2 in
      case item (low bounds) 0 of Inl e \<Rightarrow> Inl e | Inr lo \<Rightarrow>
      (case item (high bounds) 0 of Inl e \<Rightarrow> Inl e | Inr hi \<Rightarrow>
      (case linspace lo hi grid_marks of Inl e \<Rightarrow> Inl e | Inr s \<Rightarrow>
        if state_index = dimn - 1 then Inr (map (\<lambda>x. [x]) s)
        else if state_index > dimn - 1 then Inl RecursionError
        else (case rec_all_states (state_index + 1) grid_marks bounds of
                Inl e \<Rightarrow> Inl e
              | Inr next_res \<Rightarrow> Inr (concat (map (\<lambda>l. map (\<lambda>x. [x] @ l) s) next_res))))))"
  by pat_completeness auto
termination
  by (relation "measure (\<lambda>(state_index, grid_marks, bounds). nat (2 - state_index))") auto

declare rec_all_states.simps [simp del]

text \<open>
  \<^verbatim>\<open>is_free(coordinates, bounds)\<close>: \<^verbatim>\<open>any(np.abs(coordinates) >= bounds.high[0])\<close>
  compares every coordinate with the one number \<^verbatim>\<open>bounds.high[0]\<close>.
\<close>

definition is_free :: "real list \<Rightarrow> RealVectorBounds \<Rightarrow> py_error + bool" where
  "is_free coordinates bounds =
     bind_err (item (high bounds) 0)
       (\<lambda>h. if list_ex (\<lambda>c. \<bar>c\<bar> \<ge> h) coordinates then Inr False else Inr True)"

text \<open>The comprehension \<^verbatim>\<open>[s for s in grid_states if is_free(s, bounds)]\<close>.\<close>

fun filter_free :: "real list list \<Rightarrow> RealVectorBounds \<Rightarrow> py_error + real list list" where
  "filter_free [] bounds = Inr []"
| "filter_free (s # grid_states) bounds =
     bind_err (is_free s bounds)
       (\<lambda>keep. bind_err (filter_free grid_states bounds)
          (\<lambda>rest. Inr (if keep then s # rest else rest)))"

text \<open>
  \<^verbatim>\<open>get_fixed_start_goal_pairs(bounds)\<close>. The \<^verbatim>\<open>while\<close> loop has no bound on the
  number of its rounds, so its model returns \<open>None\<close> when the loop does not end.
\<close>

type_synonym pair = "real list \<times> real list"

partial_function (option) pairs_loop ::
  "RealVectorBounds \<Rightarrow> pair list \<Rightarrow> int \<Rightarrow> (py_error + pair list) option" where
  "pairs_loop bounds all_pairs grid_marks =
     (if length all_pairs < 1000 then
        (case rec_all_states 0 grid_marks bounds of
           Inl e \<Rightarrow> Some (Inl e)
         | Inr grid_states \<Rightarrow>
            (case filter_free grid_states bounds of
               Inl e \<Rightarrow> Some (Inl e)
             | Inr free_states \<Rightarrow>
                 pairs_loop bounds
                   (concat (map (\<lambda>s1. map (\<lambda>s2. (s1, s2)) free_states) free_states))
                   (grid_marks + 1)))
      else Some (Inr all_pairs))"

declare pairs_loop.simps [code]

definition get_fixed_start_goal_pairs :: "RealVectorBounds \<Rightarrow> (py_error + pair list) option" where
  "get_fixed_start_goal_pairs bounds = pairs_loop bounds [] 11"

section \<open>The driver\<close>

text \<open>
  \<^verbatim>\<open>plan()\<close> talks to the library through a \<^verbatim>\<open>SimpleSetup\<close> object. The model
  keeps what the script stores in it, and records in a log each call of \<^verbatim>\<open>solve\<close>
  together with the setup at that moment, and each \<^verbatim>\<open>print\<close>. What \<^verbatim>\<open>solve\<close>
  answers is decided by the library's randomised planner within a wall-clock budget;
  the model takes that answer as a parameter \<open>solver\<close>, and so does it take the
  space information object that \<^verbatim>\<open>ss.getSpaceInformation()\<close> returns. The solution
  path that the script prints is the library's; the log records only that it was
  printed, with the start and the goal printed beside it.
\<close>

datatype planner = RRT

record SimpleSetup =
  stateBounds :: RealVectorBounds
  controlBounds :: RealVectorBounds
  stateValidityChecker :: "(real SE2State \<Rightarrow> bool) option"
  statePropagator :: "(real store \<Rightarrow> addr \<Rightarrow> addr \<Rightarrow> real \<Rightarrow> addr \<Rightarrow> real store) option"
  startAndGoalStates :: "(real SE2State \<times> real SE2State \<times> real) option"
  plannerSet :: "planner option"
  propagationStepSize :: "real option"

datatype event =
    PrintBounds real real
  | Solve SimpleSetup real
  | PrintSolution "real SE2State" "real SE2State"

record plan_vars =
  v_start :: "real SE2State"
  v_goal :: "real SE2State"
  v_ss :: SimpleSetup
  v_log :: "event list"

text \<open>The body of \<^verbatim>\<open>if i == 100:\<close> in the loop of \<^verbatim>\<open>plan\<close>.\<close>

definition solve_pair ::
  "(SimpleSetup \<Rightarrow> real \<Rightarrow> bool) \<Rightarrow> RealVectorBounds \<Rightarrow> real list \<Rightarrow> real list \<Rightarrow> plan_vars
     \<Rightarrow> py_error + plan_vars" where
  "solve_pair solver bounds s g vars =
     bind_err (item s 0) (\<lambda>s0.
     bind_err (item s 1) (\<lambda>s1.
     bind_err (item g 0) (\<lambda>g0.
     bind_err (item g 1) (\<lambda>g1.
     bind_err (item (low bounds) 0) (\<lambda>lo.
     bind_err (item (high bounds) 0) (\<lambda>hi.
       let start = \<lparr>X = s0, Y = s1, Yaw = 0\<rparr>;
           goal = \<lparr>X = g0, Y = g1, Yaw = 0\<rparr>;
           ss1 = (v_ss vars)\<lparr>startAndGoalStates := Some (start, goal, 0.05)\<rparr>;
           ss2 = ss1\<lparr>plannerSet := Some RRT\<rparr>;
           ss3 = ss2\<lparr>propagationStepSize := Some 0.1\<rparr>;
           solved = solver ss3 20
       in Inr \<lparr>v_start = start, v_goal = goal, v_ss = ss3,
                v_log = v_log vars @ [PrintBounds lo hi, Solve ss3 20]
                          @ (if solved then [PrintSolution start goal] else [])\<rparr>))))))"

text \<open>The loop \<^verbatim>\<open>for i, (s, g) in enumerate(start_goal_pairs)\<close>, from index \<open>i\<close> on.\<close>

fun plan_loop ::
  "(SimpleSetup \<Rightarrow> real \<Rightarrow> bool) \<Rightarrow> RealVectorBounds \<Rightarrow> nat \<Rightarrow> pair list \<Rightarrow> plan_vars
     \<Rightarrow> py_error + plan_vars" where
  "plan_loop solver bounds i [] vars = Inr vars"
| "plan_loop solver bounds i ((s, g) # rest) vars =
     (if i = 100 then
        bind_err (solve_pair solver bounds s g vars)
          (\<lambda>vars'. plan_loop solver bounds (i + 1) rest vars')
      else plan_loop solver bounds (i + 1) rest vars)"

text \<open>
  The variables of \<^verbatim>\<open>plan\<close> when the loop is entered: the bounds, the setup with the
  checker and the propagator installed, and the start and goal states built first.
\<close>

definition plan_bounds :: RealVectorBounds where
  "plan_bounds = setHigh 1 (setLow (- 1) (RealVectorBounds_init 2))"

definition plan_cbounds :: RealVectorBounds where
  "plan_cbounds = setHigh 0.3 (setLow (- 0.3) (RealVectorBounds_init 2))"

definition plan_init :: "real SE2State SpaceInformation \<Rightarrow> plan_vars" where
  "plan_init si =
     \<lparr>v_start = \<lparr>X = - 0.5, Y = 0.0, Yaw = 0.0\<rparr>,
      v_goal = \<lparr>X = 0.0, Y = 0.5, Yaw = 0.0\<rparr>,
      v_ss = \<lparr>stateBounds = plan_bounds, controlBounds = plan_cbounds,
              stateValidityChecker = Some (partial isStateValid si),
              statePropagator = Some (propagate real_arith),
              startAndGoalStates = None, plannerSet = None, propagationStepSize = None\<rparr>,
      v_log = []\<rparr>"

definition plan ::
  "real SE2State SpaceInformation \<Rightarrow> (SimpleSetup \<Rightarrow> real \<Rightarrow> bool)
     \<Rightarrow> (py_error + plan_vars) option" where
  "plan si solver =
     (case get_fixed_start_goal_pairs plan_bounds of
        None \<Rightarrow> None
      | Some (Inl e) \<Rightarrow> Some (Inl e)
      | Some (Inr start_goal_pairs) \<Rightarrow>
          Some (plan_loop solver plan_bounds 0 start_goal_pairs (plan_init si)))"

section \<open>Notions used to state the properties\<close>

text \<open>
  One round of the loop of \<^verbatim>\<open>get_fixed_start_goal_pairs\<close> computes the free grid states
  at the current resolution and then all ordered pairs among them.
\<close>

definition free_grid_states :: "RealVectorBounds \<Rightarrow> int \<Rightarrow> py_error + real list list" where
  "free_grid_states bounds grid_marks =
     bind_err (rec_all_states 0 grid_marks bounds) (\<lambda>grid_states. filter_free grid_states bounds)"

definition ordered_pairs :: "'a list \<Rightarrow> ('a \<times> 'a) list" where
  "ordered_pairs xs = concat (map (\<lambda>s1. map (\<lambda>s2. (s1, s2)) xs) xs)"

text \<open>
  The grid of 11 marks on \<open>[-1, 1]\<close> without its two end marks, and the 81 states
  over it, the first coordinate running fastest.
\<close>

definition inner11 :: "real list" where
  "inner11 = [- 0.8, - 0.6, - 0.4, - 0.2, 0, 0.2, 0.4, 0.6, 0.8]"

definition free11 :: "real list list" where
  "free11 = concat (map (\<lambda>y. map (\<lambda>x. [x, y]) inner11) inner11)"

text \<open>Bounds at which the loop needs a second round: 25 free states at 11 marks, 36 at 12.\<close>

definition wide_bounds :: RealVectorBounds where
  "wide_bounds = \<lparr>low = [- 2.4, - 2.4], high = [1, 1]\<rparr>"

text \<open>Two stores that agree on one state and one control and differ everywhere else.\<close>

definition store_a :: "real store" where
  "store_a = \<lparr>states = (\<lambda>p. \<lparr>X = 0, Y = 0, Yaw = 0\<rparr>)(0 := \<lparr>X = 1, Y = 2, Yaw = 0\<rparr>),
              controls = (\<lambda>p. \<lparr>c0 = 1, c1 = 1\<rparr>)\<rparr>"

definition store_b :: "real store" where
  "store_b = \<lparr>states = (\<lambda>p. \<lparr>X = 7, Y = 7, Yaw = 7\<rparr>)(3 := \<lparr>X = 1, Y = 2, Yaw = 0\<rparr>),
              controls = (\<lambda>p. \<lparr>c0 = 0, c1 = 0\<rparr>)(5 := \<lparr>c0 = 1, c1 = 1\<rparr>)\<rparr>"

text \<open>
  The calls of \<^verbatim>\<open>solve\<close> in a log, and the start, goal and tolerance that the setup
  held at each of them.
\<close>

fun solve_requests :: "event list \<Rightarrow> (SimpleSetup \<times> real) list" where
  "solve_requests [] = []"
| "solve_requests (Solve ss budget # es) = (ss, budget) # solve_requests es"
| "solve_requests (e # es) = solve_requests es"

definition solved_scenarios ::
  "(py_error + plan_vars) option \<Rightarrow> (real SE2State \<times> real SE2State \<times> real) option list" where
  "solved_scenarios r =
     (case r of
        Some (Inr vars) \<Rightarrow> map (\<lambda>(ss, budget). startAndGoalStates ss) (solve_requests (v_log vars))
      | _ \<Rightarrow> [])"

text \<open>A space information object that accepts every state, and a planner that always succeeds.\<close>

definition open_si :: "real SE2State SpaceInformation" where
  "open_si = \<lparr>satisfiesBounds = (\<lambda>s. True)\<rparr>"

definition solver_yes :: "SimpleSetup \<Rightarrow> real \<Rightarrow> bool" where
  "solver_yes ss budget = True"

section \<open>The state propagator: one Euler step through the store\<close>

text \<open>
  The value that a call leaves in the output state, for any arithmetic. The three
  writes happen in the order \<open>X\<close>, \<open>Y\<close>, \<open>Yaw\<close> and each read is of a field that has
  not been written yet, so the equation holds also when the start state and the output
  state are the same object.
\<close>

lemma propagate_state:
  "states (propagate ar h start control duration state) state =
     \<lparr>X = add ar (X (states h start))
            (mul ar (mul ar (c0 (controls h control)) duration) (cosf ar (Yaw (states h start)))),
      Y = add ar (Y (states h start))
            (mul ar (mul ar (c0 (controls h control)) duration) (sinf ar (Yaw (states h start)))),
      Yaw = add ar (Yaw (states h start)) (mul ar (c1 (controls h control)) duration)\<rparr>"
  by (simp add: propagate_def Let_def setX_def setY_def setYaw_def getX_def getY_def getYaw_def
      control_at_def)

lemma propagate_other:
  "p \<noteq> state \<Longrightarrow> states (propagate ar h start control duration state) p = states h p"
  by (simp add: propagate_def Let_def setX_def setY_def setYaw_def)

lemma propagate_controls:
  "controls (propagate ar h start control duration state) = controls h"
  by (simp add: propagate_def Let_def setX_def setY_def setYaw_def)

text \<open>
  Claim C1. For every start state \<open>(x, y, yaw)\<close>, control \<open>(v, \<omega>)\<close> and duration \<open>d\<close>,
  \<^verbatim>\<open>propagate\<close> leaves in the output state \<open>x + v * d * cos yaw\<close>,
  \<open>y + v * d * sin yaw\<close> and \<open>yaw + \<omega> * d\<close>, where \<open>x\<close>, \<open>y\<close> and \<open>yaw\<close> are the
  fields of the start state before the call: both position updates use the yaw of the
  start state, not the updated one.
\<close>

theorem propagate_euler_step:
  "states (propagate real_arith h start control duration state) state =
     \<lparr>X = X (states h start) + c0 (controls h control) * duration * cos (Yaw (states h start)),
      Y = Y (states h start) + c0 (controls h control) * duration * sin (Yaw (states h start)),
      Yaw = Yaw (states h start) + c1 (controls h control) * duration\<rparr>"
  by (simp add: propagate_state real_arith_def)

text \<open>
  Claim C5. Two calls of \<^verbatim>\<open>propagate\<close> whose start states hold the same values, whose
  controls hold the same values and whose durations are equal leave the same successor
  state, whatever else the two stores hold, whichever objects are passed, and whatever
  the arithmetic is: the result depends on the values of the three arguments only.
\<close>

theorem propagate_deterministic:
  "states h1 start1 = states h2 start2 \<Longrightarrow> controls h1 control1 = controls h2 control2 \<Longrightarrow>
   states (propagate ar h1 start1 control1 duration state1) state1 =
   states (propagate ar h2 start2 control2 duration state2) state2"
  by (simp add: propagate_state)

text \<open>
  The hypotheses of C5 at two different stores; the second call passes the same object
  as start and as output.
\<close>

theorem propagate_deterministic_witness:
  "states store_a 0 = states store_b 3 \<and> controls store_a 0 = controls store_b 5 \<and>
   states (propagate real_arith store_a 0 0 2 1) 1 =
   states (propagate real_arith store_b 3 5 2 3) 3"
proof -
  have s: "states store_a 0 = states store_b 3" by (simp add: store_a_def store_b_def)
  have c: "controls store_a 0 = controls store_b 5" by (simp add: store_a_def store_b_def)
  from propagate_deterministic[OF s c, of real_arith 2 1 3] s c show ?thesis by simp
qed

text \<open>
  Claim C6, as stated, fails when the start state and the output state are one object:
  the call overwrites it, so the start state is not left unchanged.
\<close>

theorem propagate_aliased_start_overwritten:
  "states (propagate real_arith store_a 0 0 2 0) 0 \<noteq> states store_a 0"
  by (simp add: propagate_state real_arith_def store_a_def)

text \<open>
  Claim C6, amended. \<^verbatim>\<open>propagate\<close> writes the output state object and nothing else:
  every control and every state object other than the output state is unchanged. The
  start state is therefore unchanged whenever it is not the output object itself.
\<close>

theorem propagate_frame:
  "controls (propagate ar h start control duration state) = controls h \<and>
   (\<forall>p. p \<noteq> state \<longrightarrow> states (propagate ar h start control duration state) p = states h p)"
  by (simp add: propagate_other propagate_controls)

text \<open>
  The frame of C6 at a call whose start state (object 0) is not its output (object 1).
\<close>

theorem propagate_frame_witness:
  "(0::nat) \<noteq> 1 \<and> controls (propagate real_arith store_a 0 0 2 1) = controls store_a \<and>
   states (propagate real_arith store_a 0 0 2 1) 0 = states store_a 0"
  using propagate_frame[of real_arith store_a 0 0 2 1] by simp

section \<open>The validity checker\<close>

text \<open>
  Claim C3. \<^verbatim>\<open>isStateValid\<close> answers exactly what \<^verbatim>\<open>satisfiesBounds\<close> of the space
  information answers for the state, and the checker that \<^verbatim>\<open>plan\<close> installs is
  \<^verbatim>\<open>isStateValid\<close> bound to that space information: no other check is made.
\<close>

theorem isStateValid_is_satisfiesBounds:
  "isStateValid spaceInformation state = satisfiesBounds spaceInformation state \<and>
   stateValidityChecker (v_ss (plan_init spaceInformation)) = Some (partial isStateValid spaceInformation) \<and>
   partial isStateValid spaceInformation state = satisfiesBounds spaceInformation state"
  by (simp add: isStateValid_def partial_def plan_init_def)

section \<open>The grid and the free states\<close>

text \<open>
  Claim C8. With a non-empty \<^verbatim>\<open>bounds.high\<close>, a point is free exactly when every
  coordinate has an absolute value strictly below \<^verbatim>\<open>bounds.high[0]\<close>. The answer does
  not mention \<^verbatim>\<open>bounds.low\<close> nor the other entries of \<^verbatim>\<open>bounds.high\<close>, and a
  coordinate of absolute value \<^verbatim>\<open>bounds.high[0]\<close> makes the point not free.
\<close>

theorem is_free_iff:
  "is_free coordinates \<lparr>low = lo, high = h # hs\<rparr> = Inr (list_all (\<lambda>c. \<bar>c\<bar> < h) coordinates)"
proof -
  have "list_ex (\<lambda>c. \<bar>c\<bar> \<ge> h) coordinates = (\<not> list_all (\<lambda>c. \<bar>c\<bar> < h) coordinates)"
    by (induction coordinates) auto
  then show ?thesis
    by (simp add: is_free_def item_def bind_err_def)
qed

text \<open>
  With an empty \<^verbatim>\<open>bounds.high\<close> the read of \<^verbatim>\<open>bounds.high[0]\<close> raises.
\<close>

lemma is_free_no_high: "is_free coordinates \<lparr>low = lo, high = []\<rparr> = Inl IndexError"
  by (simp add: is_free_def item_def bind_err_def)

lemma linspace_nat:
  "\<exists>s. linspace lo hi (int n) = Inr s \<and> length s = n"
  by (simp add: linspace_def Let_def)

lemma length_concat_rows:
  "length (concat (map (\<lambda>y. map (f y) s) t)) = length t * length s"
  by (induction t) simp_all

lemma rec_all_states_0:
  "rec_all_states 0 grid_marks \<lparr>low = lo # los, high = hi # his\<rparr> =
     (case linspace lo hi grid_marks of Inl e \<Rightarrow> Inl e
      | Inr s \<Rightarrow> Inr (concat (map (\<lambda>y. map (\<lambda>x. [x, y]) s) s)))"
  by (simp add: rec_all_states.simps[of 0] rec_all_states.simps[of 1] item_def Let_def map_concat comp_def
      split: sum.splits)

text \<open>
  A negative number of marks is refused by \<^verbatim>\<open>np.linspace\<close>, and a \<^verbatim>\<open>state_index\<close>
  above \<^verbatim>\<open>dim - 1\<close> never reaches the base case.
\<close>

lemma rec_all_states_negative:
  "grid_marks < 0 \<Longrightarrow>
   rec_all_states state_index grid_marks \<lparr>low = lo # los, high = hi # his\<rparr> = Inl ValueError"
  by (subst rec_all_states.simps) (simp add: item_def linspace_def)

lemma rec_all_states_above:
  "rec_all_states 2 (int n) \<lparr>low = lo # los, high = hi # his\<rparr> = Inl RecursionError"
  by (subst rec_all_states.simps) (simp add: item_def linspace_def Let_def)

text \<open>
  Claim C10. For every number \<open>n\<close> of grid marks, \<^verbatim>\<open>_rec_all_states(0, n, bounds)\<close>
  returns \<open>n\<^sup>2\<close> two-element states: all \<open>[x, y]\<close> with \<open>x\<close> and \<open>y\<close> from the one axis
  \<^verbatim>\<open>linspace(bounds.low[0], bounds.high[0], n)\<close>, which has \<open>n\<close> marks. The bounds of
  the other dimensions (\<open>los\<close>, \<open>his\<close>) are not used.
\<close>

theorem rec_all_states_grid:
  "\<exists>s. linspace lo hi (int n) = Inr s \<and> length s = n \<and>
       rec_all_states 0 (int n) \<lparr>low = lo # los, high = hi # his\<rparr> =
         Inr (concat (map (\<lambda>y. map (\<lambda>x. [x, y]) s) s)) \<and>
       length (concat (map (\<lambda>y. map (\<lambda>x. [x, y]) s) s)) = n ^ 2"
proof -
  obtain s where s: "linspace lo hi (int n) = Inr s" "length s = n"
    using linspace_nat by blast
  then show ?thesis
    by (simp add: rec_all_states_0 length_concat_rows power2_eq_square)
qed

section \<open>The enumeration loop\<close>

lemma ordered_pairs_product: "ordered_pairs xs = List.product xs xs"
  by (simp add: ordered_pairs_def product_concat_map)

lemma length_ordered_pairs: "length (ordered_pairs xs) = length xs * length xs"
  by (simp add: ordered_pairs_product)

lemma plan_bounds_eq: "plan_bounds = \<lparr>low = [- 1, - 1], high = [1, 1]\<rparr>"
  by (simp add: plan_bounds_def setHigh_def setLow_def RealVectorBounds_init_def numeral_2_eq_2)

lemma linspace11: "linspace (- 1) 1 11 = Inr ([- 1] @ inner11 @ [1])"
  by (simp add: linspace_def Let_def upt_rec inner11_def)

lemma free11_eval: "free_grid_states plan_bounds 11 = Inr free11"
  by (simp add: free_grid_states_def plan_bounds_eq rec_all_states_0 linspace11 bind_err_def
      is_free_def item_def inner11_def free11_def)

lemma free11_general:
  "free_grid_states \<lparr>low = - 1 # los, high = 1 # his\<rparr> 11 = Inr free11"
  by (simp add: free_grid_states_def rec_all_states_0 linspace11 bind_err_def
      is_free_def item_def inner11_def free11_def)

lemma wide11: "\<exists>gs. free_grid_states wide_bounds 11 = Inr gs \<and> length gs = 25"
  by (simp add: free_grid_states_def wide_bounds_def rec_all_states_0 linspace_def Let_def upt_rec
      bind_err_def is_free_def item_def)

lemma wide12: "\<exists>gs. free_grid_states wide_bounds 12 = Inr gs \<and> length gs = 36"
  by (simp add: free_grid_states_def wide_bounds_def rec_all_states_0 linspace_def Let_def upt_rec
      bind_err_def is_free_def item_def)

text \<open>
  One round of the loop, and the loop from a resolution \<open>n\<close> on: when the rounds at
  \<open>n, \<dots>, n + k - 1\<close> give fewer than 1000 pairs and the round at \<open>n + k\<close> gives at
  least 1000, the loop returns the pairs of the round at \<open>n + k\<close>.
\<close>

lemma pairs_loop_round:
  "pairs_loop bounds all_pairs grid_marks =
     (if length all_pairs < 1000 then
        (case free_grid_states bounds grid_marks of
           Inl e \<Rightarrow> Some (Inl e)
         | Inr fs \<Rightarrow> pairs_loop bounds (ordered_pairs fs) (grid_marks + 1))
      else Some (Inr all_pairs))"
  by (subst pairs_loop.simps)
     (simp add: free_grid_states_def bind_err_def ordered_pairs_def split: sum.splits)

lemma pairs_loop_reaches:
  "length cur < 1000 \<Longrightarrow> free_grid_states bounds (n + int k) = Inr fs \<Longrightarrow>
   1000 \<le> length fs * length fs \<Longrightarrow>
   \<forall>j<k. \<exists>gs. free_grid_states bounds (n + int j) = Inr gs \<and> length gs * length gs < 1000 \<Longrightarrow>
   pairs_loop bounds cur n = Some (Inr (ordered_pairs fs))"
proof (induction k arbitrary: cur n)
  case 0
  then have "pairs_loop bounds cur n = pairs_loop bounds (ordered_pairs fs) (n + 1)"
    by (subst pairs_loop_round) simp
  also have "\<dots> = Some (Inr (ordered_pairs fs))"
    using 0 by (subst pairs_loop_round) (simp add: length_ordered_pairs)
  finally show ?case .
next
  case (Suc k)
  from Suc.prems(4) obtain gs where gs: "free_grid_states bounds (n + int 0) = Inr gs"
    "length gs * length gs < 1000" by blast
  have step: "pairs_loop bounds cur n = pairs_loop bounds (ordered_pairs gs) (n + 1)"
    using Suc.prems(1) gs by (subst pairs_loop_round) simp
  have "pairs_loop bounds (ordered_pairs gs) (n + 1) = Some (Inr (ordered_pairs fs))"
  proof (rule Suc.IH)
    show "length (ordered_pairs gs) < 1000" using gs by (simp add: length_ordered_pairs)
    show "free_grid_states bounds (n + 1 + int k) = Inr fs"
      using Suc.prems(2) by (simp add: ac_simps)
    show "1000 \<le> length fs * length fs" by (rule Suc.prems(3))
    show "\<forall>j<k. \<exists>gs. free_grid_states bounds (n + 1 + int j) = Inr gs \<and> length gs * length gs < 1000"
    proof (intro allI impI)
      fix j assume "j < k"
      then have "Suc j < Suc k" by simp
      with Suc.prems(4) obtain hs where "free_grid_states bounds (n + int (Suc j)) = Inr hs"
        "length hs * length hs < 1000" by blast
      then show "\<exists>gs. free_grid_states bounds (n + 1 + int j) = Inr gs \<and> length gs * length gs < 1000"
        by (auto simp: ac_simps)
    qed
  qed
  with step show ?case by simp
qed

lemma length_free11: "length free11 = 81"
  by (simp add: free11_def inner11_def)

lemma get_pairs_plan_bounds:
  "get_fixed_start_goal_pairs plan_bounds = Some (Inr (ordered_pairs free11))"
  unfolding get_fixed_start_goal_pairs_def
  using pairs_loop_reaches[of "[]" plan_bounds 11 0 free11]
  by (simp add: free11_eval length_free11)

lemma plan_loop_at:
  "plan_loop solver bounds i ps vars =
     (if i \<le> 100 \<and> 100 < i + length ps
      then solve_pair solver bounds (fst (ps ! (100 - i))) (snd (ps ! (100 - i))) vars
      else Inr vars)"
proof (induction ps arbitrary: i vars)
  case Nil
  then show ?case by auto
next
  case (Cons p ps)
  obtain s g where p: "p = (s, g)" by (cases p)
  show ?case
  proof (cases "i = 100")
    case True
    then show ?thesis
      by (simp add: p Cons.IH bind_err_def split: sum.splits)
  next
    case False
    then show ?thesis
      by (auto simp: p Cons.IH Suc_diff_le nth_Cons')
  qed
qed

lemma pair100: "ordered_pairs free11 ! 100 = ([- 0.6, - 0.8], [- 0.6, - 0.4])"
  by (simp add: ordered_pairs_product product_nth length_free11)
     (simp add: free11_def inner11_def)

text \<open>
  Claim C2, as stated, fails at the bounds \<open>[-1, 1]\<close> of the driver: the utility
  returns after the round at 11 marks, with the 6561 ordered pairs of 81 free grid
  points, far below 1000 free grid points.
\<close>

theorem pairs_stop_at_81_points:
  "get_fixed_start_goal_pairs plan_bounds = Some (Inr (ordered_pairs free11)) \<and>
   free_grid_states plan_bounds 11 = Inr free11 \<and> length free11 = 81 \<and>
   length (ordered_pairs free11) = 6561"
  by (simp add: get_pairs_plan_bounds free11_eval length_free11 length_ordered_pairs)

text \<open>
  Claim C2, amended. Starting from 11 marks per axis, the utility raises the resolution
  by one mark per round as long as the current round gives fewer than 1000 ordered pairs
  of free grid points, and returns all ordered pairs (a point paired with itself
  included) among the free grid points of the first round that gives at least 1000
  pairs.
\<close>

theorem pairs_until_1000_pairs:
  assumes "free_grid_states bounds (11 + int k) = Inr fs"
    and "1000 \<le> length (ordered_pairs fs)"
    and "\<forall>j<k. \<exists>gs. free_grid_states bounds (11 + int j) = Inr gs \<and> length (ordered_pairs gs) < 1000"
  shows "get_fixed_start_goal_pairs bounds = Some (Inr (ordered_pairs fs))"
  unfolding get_fixed_start_goal_pairs_def
  using assms pairs_loop_reaches[of "[]" bounds 11 k fs]
  by (simp add: length_ordered_pairs)

text \<open>
  The amended C2 at bounds where the first round is not enough: 625 pairs at 11 marks,
  1296 at 12.
\<close>

theorem pairs_until_1000_pairs_witness:
  "\<exists>gs fs. free_grid_states wide_bounds 11 = Inr gs \<and> length (ordered_pairs gs) = 625 \<and>
     free_grid_states wide_bounds 12 = Inr fs \<and> length (ordered_pairs fs) = 1296 \<and>
     get_fixed_start_goal_pairs wide_bounds = Some (Inr (ordered_pairs fs))"
proof -
  obtain gs where gs: "free_grid_states wide_bounds 11 = Inr gs" "length gs = 25"
    using wide11 by blast
  obtain fs where fs: "free_grid_states wide_bounds 12 = Inr fs" "length fs = 36"
    using wide12 by blast
  have a: "free_grid_states wide_bounds (11 + int 1) = Inr fs" using fs by simp
  have b: "1000 \<le> length (ordered_pairs fs)" using fs by (simp add: length_ordered_pairs)
  have c: "\<forall>j<(1::nat). \<exists>gs. free_grid_states wide_bounds (11 + int j) = Inr gs
             \<and> length (ordered_pairs gs) < 1000"
    using gs by (simp add: length_ordered_pairs)
  from pairs_until_1000_pairs[OF a b c] gs fs show ?thesis
    by (simp add: length_ordered_pairs)
qed

text \<open>
  Claim C7. For bounds whose dimension 0 is \<open>[-1, 1]\<close>, the utility terminates in the
  first round, at 11 marks, and its result is one fixed list of 6561 pairs: the model
  is a function of the bounds alone, and of their entries at index 0 only.
\<close>

theorem pairs_deterministic_terminating:
  "get_fixed_start_goal_pairs \<lparr>low = - 1 # los, high = 1 # his\<rparr> = Some (Inr (ordered_pairs free11)) \<and>
   length (ordered_pairs free11) = 6561"
  unfolding get_fixed_start_goal_pairs_def
  using pairs_loop_reaches[of "[]" "\<lparr>low = - 1 # los, high = 1 # his\<rparr>" 11 0 free11]
  by (simp add: free11_general length_free11 length_ordered_pairs)

section \<open>The driver\<close>

lemma solve_pair_two:
  "solve_pair solver \<lparr>low = lo # los, high = hi # his\<rparr> [s0, s1] [g0, g1] vars =
     Inr \<lparr>v_start = \<lparr>X = s0, Y = s1, Yaw = 0\<rparr>, v_goal = \<lparr>X = g0, Y = g1, Yaw = 0\<rparr>,
          v_ss = (v_ss vars)\<lparr>startAndGoalStates :=
                     Some (\<lparr>X = s0, Y = s1, Yaw = 0\<rparr>, \<lparr>X = g0, Y = g1, Yaw = 0\<rparr>, 0.05),
                   plannerSet := Some RRT, propagationStepSize := Some 0.1\<rparr>,
          v_log = v_log vars @
            [PrintBounds lo hi,
             Solve ((v_ss vars)\<lparr>startAndGoalStates :=
                      Some (\<lparr>X = s0, Y = s1, Yaw = 0\<rparr>, \<lparr>X = g0, Y = g1, Yaw = 0\<rparr>, 0.05),
                    plannerSet := Some RRT, propagationStepSize := Some 0.1\<rparr>) 20] @
            (if solver ((v_ss vars)\<lparr>startAndGoalStates :=
                      Some (\<lparr>X = s0, Y = s1, Yaw = 0\<rparr>, \<lparr>X = g0, Y = g1, Yaw = 0\<rparr>, 0.05),
                    plannerSet := Some RRT, propagationStepSize := Some 0.1\<rparr>) 20
             then [PrintSolution \<lparr>X = s0, Y = s1, Yaw = 0\<rparr> \<lparr>X = g0, Y = g1, Yaw = 0\<rparr>] else [])\<rparr>"
  by (simp add: solve_pair_def bind_err_def item_def Let_def)

lemma plan_as_solve_pair:
  "plan si solver =
     Some (solve_pair solver plan_bounds [- 0.6, - 0.8] [- 0.6, - 0.4] (plan_init si))"
  using pair100
  by (simp add: plan_def get_pairs_plan_bounds plan_loop_at length_ordered_pairs length_free11)

lemma solve_requests_append:
  "solve_requests (xs @ ys) = solve_requests xs @ solve_requests ys"
  by (induction xs rule: solve_requests.induct) simp_all

text \<open>
  Claim C9. Of any list of pairs the loop of \<^verbatim>\<open>plan\<close> handles only the pair at index
  100 and skips every other pair; \<^verbatim>\<open>plan\<close> runs that loop on the enumeration of its
  bounds, which has more than 100 pairs; and handling a pair replaces the start and goal
  built first, \<open>(-0.5, 0, 0)\<close> and \<open>(0, 0.5, 0)\<close>, by the pair's coordinates with yaw 0,
  which are the start and goal of the setup when \<^verbatim>\<open>solve\<close> is called.
\<close>

theorem plan_solves_only_index_100:
  "plan_loop solver bounds 0 ps vars =
     (if 100 < length ps
      then solve_pair solver bounds (fst (ps ! 100)) (snd (ps ! 100)) vars
      else Inr vars) \<and>
   get_fixed_start_goal_pairs plan_bounds = Some (Inr (ordered_pairs free11)) \<and>
   100 < length (ordered_pairs free11) \<and>
   plan si solver =
     Some (solve_pair solver plan_bounds (fst (ordered_pairs free11 ! 100))
             (snd (ordered_pairs free11 ! 100)) (plan_init si)) \<and>
   v_start (plan_init si) = \<lparr>X = - 0.5, Y = 0, Yaw = 0\<rparr> \<and>
   v_goal (plan_init si) = \<lparr>X = 0, Y = 0.5, Yaw = 0\<rparr> \<and>
   map_sum id v_start (solve_pair solver \<lparr>low = lo # los, high = hi # his\<rparr> [s0, s1] [g0, g1] vars) =
     Inr \<lparr>X = s0, Y = s1, Yaw = 0\<rparr> \<and>
   map_sum id v_goal (solve_pair solver \<lparr>low = lo # los, high = hi # his\<rparr> [s0, s1] [g0, g1] vars) =
     Inr \<lparr>X = g0, Y = g1, Yaw = 0\<rparr> \<and>
   solved_scenarios (Some (solve_pair solver \<lparr>low = lo # los, high = hi # his\<rparr> [s0, s1] [g0, g1] vars)) =
     solved_scenarios (Some (Inr vars)) @
       [Some (\<lparr>X = s0, Y = s1, Yaw = 0\<rparr>, \<lparr>X = g0, Y = g1, Yaw = 0\<rparr>, 0.05)]"
proof -
  have loop: "plan_loop solver bounds 0 ps vars =
     (if 100 < length ps
      then solve_pair solver bounds (fst (ps ! 100)) (snd (ps ! 100)) vars
      else Inr vars)"
    by (simp add: plan_loop_at)
  have len: "100 < length (ordered_pairs free11)"
    by (simp add: length_ordered_pairs length_free11)
  have run: "plan si solver =
     Some (solve_pair solver plan_bounds (fst (ordered_pairs free11 ! 100))
             (snd (ordered_pairs free11 ! 100)) (plan_init si))"
    using len by (simp add: plan_def get_pairs_plan_bounds plan_loop_at)
  have init: "v_start (plan_init si) = \<lparr>X = - 0.5, Y = 0, Yaw = 0\<rparr>"
    "v_goal (plan_init si) = \<lparr>X = 0, Y = 0.5, Yaw = 0\<rparr>"
    by (simp_all add: plan_init_def)
  have repl: "map_sum id v_start (solve_pair solver \<lparr>low = lo # los, high = hi # his\<rparr> [s0, s1] [g0, g1] vars) =
     Inr \<lparr>X = s0, Y = s1, Yaw = 0\<rparr>"
    "map_sum id v_goal (solve_pair solver \<lparr>low = lo # los, high = hi # his\<rparr> [s0, s1] [g0, g1] vars) =
     Inr \<lparr>X = g0, Y = g1, Yaw = 0\<rparr>"
    by (simp_all add: solve_pair_two)
  have scen: "solved_scenarios (Some (solve_pair solver \<lparr>low = lo # los, high = hi # his\<rparr> [s0, s1] [g0, g1] vars)) =
     solved_scenarios (Some (Inr vars)) @
       [Some (\<lparr>X = s0, Y = s1, Yaw = 0\<rparr>, \<lparr>X = g0, Y = g1, Yaw = 0\<rparr>, 0.05)]"
    by (simp add: solve_pair_two solved_scenarios_def solve_requests_append)
  from loop get_pairs_plan_bounds len run init repl scen show ?thesis by blast
qed

text \<open>
  Claim C4, as stated, fails: the one scenario that the driver hands to \<^verbatim>\<open>solve\<close> has
  start \<open>(-0.6, -0.8, 0)\<close> and goal \<open>(-0.6, -0.4, 0)\<close>; the reference scenario with
  start \<open>(-0.5, 0, 0)\<close> and goal \<open>(0, 0.5, 0)\<close> is never solved.
\<close>

theorem plan_reference_scenario_not_solved:
  "solved_scenarios (plan open_si solver_yes) =
     [Some (\<lparr>X = - 0.6, Y = - 0.8, Yaw = 0\<rparr>, \<lparr>X = - 0.6, Y = - 0.4, Yaw = 0\<rparr>, 0.05)] \<and>
   Some (\<lparr>X = - 0.5, Y = 0, Yaw = 0\<rparr>, \<lparr>X = 0, Y = 0.5, Yaw = 0\<rparr>, 0.05)
     \<notin> set (solved_scenarios (plan open_si solver_yes))"
  by (simp add: plan_as_solve_pair plan_bounds_eq solve_pair_two solved_scenarios_def
      solve_requests_append plan_init_def)

text \<open>
  Claim C4, amended. The driver sets the state bounds \<open>[-1, 1]\<close> and the control bounds
  \<open>[-0.3, 0.3]\<close> on both axes, and calls \<^verbatim>\<open>solve\<close> once, with a budget of 20 seconds,
  the planner RRT, the propagation step 0.1, the goal tolerance 0.05, the start
  \<open>(-0.6, -0.8, 0)\<close> and the goal \<open>(-0.6, -0.4, 0)\<close>. The answer of \<^verbatim>\<open>solve\<close> is the
  library's and is left open.
\<close>

theorem plan_scenario:
  "\<exists>ss. plan si solver =
          Some (Inr \<lparr>v_start = \<lparr>X = - 0.6, Y = - 0.8, Yaw = 0\<rparr>,
                     v_goal = \<lparr>X = - 0.6, Y = - 0.4, Yaw = 0\<rparr>,
                     v_ss = ss,
                     v_log = [PrintBounds (- 1) 1, Solve ss 20] @
                       (if solver ss 20
                        then [PrintSolution \<lparr>X = - 0.6, Y = - 0.8, Yaw = 0\<rparr>
                                \<lparr>X = - 0.6, Y = - 0.4, Yaw = 0\<rparr>]
                        else [])\<rparr>) \<and>
        stateBounds ss = \<lparr>low = [- 1, - 1], high = [1, 1]\<rparr> \<and>
        controlBounds ss = \<lparr>low = [- 0.3, - 0.3], high = [0.3, 0.3]\<rparr> \<and>
        startAndGoalStates ss =
          Some (\<lparr>X = - 0.6, Y = - 0.8, Yaw = 0\<rparr>, \<lparr>X = - 0.6, Y = - 0.4, Yaw = 0\<rparr>, 0.05) \<and>
        plannerSet ss = Some RRT \<and> propagationStepSize ss = Some 0.1"
  by (simp add: plan_as_solve_pair plan_bounds_eq solve_pair_two plan_init_def plan_cbounds_def
      setHigh_def setLow_def RealVectorBounds_init_def numeral_2_eq_2)

end
